theory Spec2Isabelle
  imports Main "HOL-Library.Sublist"
begin

section \<open>Python values\<close>

text \<open>
  A Python \<open>str\<close> is a sequence of Unicode code points. A code point is a natural
  number; an ASCII literal of the source is written \<open>ascii ''...''\<close>.
\<close>

type_synonym codepoint = nat
type_synonym pystr = "codepoint list"

definition ascii :: "string \<Rightarrow> pystr" where
  "ascii s = map of_char s"

text \<open>
  What \<open>response.json()\<close> returns: \<open>None\<close>, a bool, an int, a float, a str, a list
  or a dict. A dict is an association list in insertion order (the parser gives distinct
  keys); a finite float is \<open>m * 2 ^ e\<close>, stored as the pair \<open>m\<close>, \<open>e\<close> (the program
  only tests a number for being zero and passes it on).
\<close>

datatype json =
    JNull
  | JBool bool
  | JInt int
  | JFloat int int
  | JStr pystr
  | JList "json list"
  | JDict "(pystr \<times> json) list"

datatype py_error =
    ConnectionError
  | HTTPError
  | JSONDecodeError
  | AttributeError
  | TypeError
  | ValueError
  | IndexError
  | OSError
  | UnicodeEncodeError

text \<open>Truth value of an object, as \<open>x or None\<close> and \<open>if not x\<close> test it.\<close>

fun py_truthy :: "json \<Rightarrow> bool" where
  "py_truthy JNull = False"
| "py_truthy (JBool b) = b"
| "py_truthy (JInt n) = (n \<noteq> 0)"
| "py_truthy (JFloat m e) = (m \<noteq> 0)"
| "py_truthy (JStr s) = (s \<noteq> [])"
| "py_truthy (JList xs) = (xs \<noteq> [])"
| "py_truthy (JDict d) = (d \<noteq> [])"

text \<open>\<open>x or None\<close>\<close>

definition or_None :: "json \<Rightarrow> json" where
  "or_None x = (if py_truthy x then x else JNull)"

text \<open>\<open>d.get(key, default)\<close>: \<open>AttributeError\<close> on an object that is not a dict.\<close>

fun py_get :: "json \<Rightarrow> pystr \<Rightarrow> json \<Rightarrow> py_error + json" where
  "py_get (JDict d) key dflt = Inr (case map_of d key of None \<Rightarrow> dflt | Some v \<Rightarrow> v)"
| "py_get _ key dflt = Inl AttributeError"

text \<open>
  Iteration (\<open>for x in obj\<close>, \<open>sep.join(obj)\<close>): a list gives its elements, a str its
  characters, a dict its keys; any other object raises \<open>TypeError\<close>.
\<close>

fun py_iter :: "json \<Rightarrow> py_error + json list" where
  "py_iter (JList xs) = Inr xs"
| "py_iter (JStr s) = Inr (map (\<lambda>c. JStr [c]) s)"
| "py_iter (JDict d) = Inr (map (\<lambda>kv. JStr (fst kv)) d)"
| "py_iter _ = Inl TypeError"

text \<open>\<open>sep.join(xs)\<close> on strings.\<close>

fun str_join :: "pystr \<Rightarrow> pystr list \<Rightarrow> pystr" where
  "str_join sep [] = []"
| "str_join sep [x] = x"
| "str_join sep (x # y # ys) = x @ sep @ str_join sep (y # ys)"

text \<open>\<open>sep.join(xs)\<close> on objects: \<open>TypeError\<close> at the first item that is not a str.\<close>

fun as_strs :: "json list \<Rightarrow> py_error + pystr list" where
  "as_strs [] = Inr []"
| "as_strs (JStr s # xs) = (case as_strs xs of Inl e \<Rightarrow> Inl e | Inr ss \<Rightarrow> Inr (s # ss))"
| "as_strs (_ # xs) = Inl TypeError"

definition py_join :: "pystr \<Rightarrow> json list \<Rightarrow> py_error + pystr" where
  "py_join sep xs = (case as_strs xs of Inl e \<Rightarrow> Inl e | Inr ss \<Rightarrow> Inr (str_join sep ss))"

section \<open>The regular expression of the classifier\<close>

text \<open>
  \<open>re.search(r'university|college|institute|lab|school', affiliation, re.I)\<close>: the
  pattern is an alternation of five literal words, compiled with \<open>IGNORECASE\<close> on a
  \<open>str\<close> pattern. A literal lower-case ASCII letter \<open>p\<close> of such a pattern matches the
  subject character \<open>c\<close> when \<open>c\<close> is \<open>p\<close> or its upper-case ASCII letter, and besides,
  for \<open>i\<close>, the letters U+0130 and U+0131, for \<open>s\<close> the letter U+017F and for \<open>k\<close> the
  sign U+212A (the four non-ASCII letters that the \<open>re\<close> documentation lists).
\<close>

definition ignorecase_eq :: "codepoint \<Rightarrow> codepoint \<Rightarrow> bool" where
  "ignorecase_eq p c =
     (c = p \<or> (65 \<le> c \<and> c \<le> 90 \<and> c + 32 = p)
      \<or> (p = 105 \<and> (c = 304 \<or> c = 305))
      \<or> (p = 115 \<and> c = 383)
      \<or> (p = 107 \<and> c = 8490))"

text \<open>The literal word \<open>ps\<close> matches at the start of the subject.\<close>

fun match_word :: "pystr \<Rightarrow> pystr \<Rightarrow> bool" where
  "match_word [] cs = True"
| "match_word (p # ps) [] = False"
| "match_word (p # ps) (c # cs) = (ignorecase_eq p c \<and> match_word ps cs)"

text \<open>The alternation matches at the start of the subject: the first branch that does.\<close>

fun match_alt :: "pystr list \<Rightarrow> pystr \<Rightarrow> bool" where
  "match_alt [] cs = False"
| "match_alt (w # ws) cs = (if match_word w cs then True else match_alt ws cs)"

text \<open>\<open>re.search\<close>: the match is tried at every offset, from left to right.\<close>

fun re_search :: "pystr list \<Rightarrow> pystr \<Rightarrow> bool" where
  "re_search ws [] = match_alt ws []"
| "re_search ws (c # cs) = (if match_alt ws (c # cs) then True else re_search ws cs)"

definition PATTERN :: "pystr list" where
  "PATTERN = [ascii ''university'', ascii ''college'', ascii ''institute'',
              ascii ''lab'', ascii ''school'']"

text \<open>The call on an object: \<open>TypeError\<close> when the subject is not a str.\<close>

fun re_search_obj :: "json \<Rightarrow> py_error + bool" where
  "re_search_obj (JStr s) = Inr (re_search PATTERN s)"
| "re_search_obj _ = Inl TypeError"

section \<open>The two services\<close>

text \<open>
  What \<open>requests.get(url, params)\<close> meets: no response at all, or a status code and a
  body, which is a JSON document or not. The file system answers whether a file can be
  opened for writing; it accepts whatever is written to an opened file, and the console
  accepts whatever is printed (a write fails only where the text cannot be encoded, see
  the sink).
\<close>

datatype http_result = NoResponse | Response nat "json option"

record world =
  http_get :: "pystr \<Rightarrow> (pystr \<times> json) list \<Rightarrow> http_result"
  can_open :: "pystr \<Rightarrow> bool"

definition PUBMED_API_URL :: pystr where
  "PUBMED_API_URL = ascii ''https://eutils.ncbi.nlm.nih.gov/entrez/eutils/esearch.fcgi''"

definition PUBMED_SUMMARY_URL :: pystr where
  "PUBMED_SUMMARY_URL = ascii ''https://eutils.ncbi.nlm.nih.gov/entrez/eutils/esummary.fcgi''"

text \<open>
  \<open>response = requests.get(url, params=params); response.raise_for_status();
  response.json()\<close>: \<open>raise_for_status\<close> raises on a status from 400 to 599.
\<close>

definition get_json :: "world \<Rightarrow> pystr \<Rightarrow> (pystr \<times> json) list \<Rightarrow> py_error + json" where
  "get_json w url params =
     (case http_get w url params of
        NoResponse \<Rightarrow> Inl ConnectionError
      | Response status body \<Rightarrow>
          if 400 \<le> status \<and> status < 600 then Inl HTTPError
          else (case body of None \<Rightarrow> Inl JSONDecodeError | Some data \<Rightarrow> Inr data))"

subsection \<open>fetch_pubmed_ids\<close>

definition esearch_params :: "pystr \<Rightarrow> (pystr \<times> json) list" where
  "esearch_params query =
     [(ascii ''db'', JStr (ascii ''pubmed'')),
      (ascii ''term'', JStr query),
      (ascii ''retmax'', JInt 20),
      (ascii ''retmode'', JStr (ascii ''json''))]"

definition fetch_pubmed_ids :: "world \<Rightarrow> pystr \<Rightarrow> py_error + json" where
  "fetch_pubmed_ids w query =
     (case get_json w PUBMED_API_URL (esearch_params query) of
        Inl e \<Rightarrow> Inl e
      | Inr data \<Rightarrow>
          (case py_get data (ascii ''esearchresult'') (JDict []) of
             Inl e \<Rightarrow> Inl e
           | Inr esearchresult \<Rightarrow> py_get esearchresult (ascii ''idlist'') (JList [])))"

subsection \<open>fetch_paper_details\<close>

text \<open>
  The loop over the authors of one paper, with its two accumulators
  \<open>non_academic_authors\<close> and \<open>companies\<close>.
\<close>

fun classify_loop :: "json list \<Rightarrow> json list \<times> json list \<Rightarrow> py_error + json list \<times> json list" where
  "classify_loop [] acc = Inr acc"
| "classify_loop (author # authors) (non_academic_authors, companies) =
     (case py_get author (ascii ''name'') (JStr []) of
        Inl e \<Rightarrow> Inl e
      | Inr name \<Rightarrow>
          (case py_get author (ascii ''affiliation'') (JStr []) of
             Inl e \<Rightarrow> Inl e
           | Inr affiliation \<Rightarrow>
               (case re_search_obj affiliation of
                  Inl e \<Rightarrow> Inl e
                | Inr found \<Rightarrow>
                    if \<not> found
                    then classify_loop authors
                           (non_academic_authors @ [name], companies @ [affiliation])
                    else classify_loop authors (non_academic_authors, companies))))"

text \<open>A paper is the dict that the loop body builds: six keys, in this order.\<close>

type_synonym paper = "(pystr \<times> json) list"

text \<open>\<open>"; ".join(xs) or None\<close>\<close>

definition join_or_None :: "json list \<Rightarrow> py_error + json" where
  "join_or_None xs =
     (case py_join (ascii ''; '') xs of Inl e \<Rightarrow> Inl e | Inr s \<Rightarrow> Inr (or_None (JStr s)))"

text \<open>The body of the loop over \<open>paper_ids\<close>, for one \<open>pid\<close>.\<close>

definition paper_of :: "json \<Rightarrow> pystr \<Rightarrow> py_error + paper" where
  "paper_of summaries pid =
     (case py_get summaries pid (JDict []) of
        Inl e \<Rightarrow> Inl e
      | Inr summary \<Rightarrow>
     (case py_get summary (ascii ''title'') JNull of
        Inl e \<Rightarrow> Inl e
      | Inr title \<Rightarrow>
     (case py_get summary (ascii ''pubdate'') JNull of
        Inl e \<Rightarrow> Inl e
      | Inr pubdate \<Rightarrow>
     (case py_get summary (ascii ''authors'') (JList []) of
        Inl e \<Rightarrow> Inl e
      | Inr authors \<Rightarrow>
     (case py_get summary (ascii ''elocationid'') (JStr []) of
        Inl e \<Rightarrow> Inl e
      | Inr email \<Rightarrow>
     (case py_iter authors of
        Inl e \<Rightarrow> Inl e
      | Inr author_list \<Rightarrow>
     (case classify_loop author_list ([], []) of
        Inl e \<Rightarrow> Inl e
      | Inr (non_academic_authors, companies) \<Rightarrow>
     (case join_or_None non_academic_authors of
        Inl e \<Rightarrow> Inl e
      | Inr names \<Rightarrow>
     (case join_or_None companies of
        Inl e \<Rightarrow> Inl e
      | Inr affiliations \<Rightarrow>
          Inr [(ascii ''PubmedID'', JStr pid),
               (ascii ''Title'', title),
               (ascii ''Publication Date'', pubdate),
               (ascii ''Non-academic Author(s)'', names),
               (ascii ''Company Affiliation(s)'', affiliations),
               (ascii ''Corresponding Author Email'', or_None email)])))))))))"

fun papers_loop :: "json \<Rightarrow> pystr list \<Rightarrow> paper list \<Rightarrow> py_error + paper list" where
  "papers_loop summaries [] papers = Inr papers"
| "papers_loop summaries (pid # pids) papers =
     (case paper_of summaries pid of
        Inl e \<Rightarrow> Inl e
      | Inr p \<Rightarrow> papers_loop summaries pids (papers @ [p]))"

definition esummary_params :: "pystr \<Rightarrow> (pystr \<times> json) list" where
  "esummary_params ids =
     [(ascii ''db'', JStr (ascii ''pubmed'')),
      (ascii ''id'', JStr ids),
      (ascii ''retmode'', JStr (ascii ''json''))]"

text \<open>
  \<open>paper_ids\<close> is whatever the caller passes. \<open>",".join(paper_ids)\<close> iterates it and
  raises unless every item is a str, so the loop below runs over strings.
\<close>

definition fetch_paper_details :: "world \<Rightarrow> json \<Rightarrow> py_error + paper list" where
  "fetch_paper_details w paper_ids =
     (case py_iter paper_ids of
        Inl e \<Rightarrow> Inl e
      | Inr items \<Rightarrow>
     (case as_strs items of
        Inl e \<Rightarrow> Inl e
      | Inr pids \<Rightarrow>
     (case get_json w PUBMED_SUMMARY_URL (esummary_params (str_join (ascii '','') pids)) of
        Inl e \<Rightarrow> Inl e
      | Inr body \<Rightarrow>
     (case py_get body (ascii ''result'') (JDict []) of
        Inl e \<Rightarrow> Inl e
      | Inr summaries \<Rightarrow> papers_loop summaries pids []))))"

section \<open>The sink\<close>

text \<open>
  \<open>csv.DictWriter\<close>: a row dict with a key outside \<open>fieldnames\<close> raises \<open>ValueError\<close>;
  otherwise the row holds, for each field name in order, the dict's value, or the empty
  string for a missing key. A cell is the object handed to the writer (the writer then
  renders \<open>None\<close> as an empty cell and any other object by \<open>str\<close>).
\<close>

definition dict_to_list :: "pystr list \<Rightarrow> paper \<Rightarrow> py_error + json list" where
  "dict_to_list fieldnames rowdict =
     (if list_ex (\<lambda>kv. fst kv \<notin> set fieldnames) rowdict then Inl ValueError
      else Inr (map (\<lambda>key. case map_of rowdict key of None \<Rightarrow> JStr [] | Some v \<Rightarrow> v)
                  fieldnames))"

text \<open>
  The file is opened with \<open>encoding='utf-8'\<close>, and the writer hands each row to it as
  one text: \<open>None\<close> as an empty cell, a str as itself, any other object by \<open>str\<close>. The
  write raises \<open>UnicodeEncodeError\<close> when the text cannot be encoded, that is when a str
  cell holds a surrogate code point (U+D800 to U+DFFF; the parser accepts \<open>"\ud800"\<close>).
  The \<open>str\<close> of any other object escapes a surrogate, so only a str cell can fail. A
  row whose write fails is not in the file; the rows before it are.
\<close>

definition is_surrogate :: "codepoint \<Rightarrow> bool" where
  "is_surrogate c = (55296 \<le> c \<and> c \<le> 57343)"

fun cell_encodable :: "json \<Rightarrow> bool" where
  "cell_encodable (JStr s) = list_all (\<lambda>c. \<not> is_surrogate c) s"
| "cell_encodable _ = True"

definition row_encodable :: "json list \<Rightarrow> bool" where
  "row_encodable row = list_all cell_encodable row"

text \<open>\<open>writer.writerows(papers)\<close>: the rows before a failing one are written.\<close>

fun writerows :: "pystr list \<Rightarrow> paper list \<Rightarrow> json list list \<Rightarrow> py_error option \<times> json list list" where
  "writerows fieldnames [] rows = (None, rows)"
| "writerows fieldnames (p # ps) rows =
     (case dict_to_list fieldnames p of
        Inl e \<Rightarrow> (Some e, rows)
      | Inr row \<Rightarrow>
          if row_encodable row then writerows fieldnames ps (rows @ [row])
          else (Some UnicodeEncodeError, rows))"

text \<open>
  \<open>save_to_csv\<close> gives the exception it raises, if any, and the rows of the file it
  leaves behind, if it opened one. The file is opened (and truncated) before
  \<open>papers[0]\<close> is read; \<open>writeheader\<close> writes the field names as a row.
\<close>

definition save_to_csv :: "world \<Rightarrow> paper list \<Rightarrow> pystr \<Rightarrow> py_error option \<times> json list list option" where
  "save_to_csv w papers filename =
     (if \<not> can_open w filename then (Some OSError, None)
      else (case papers of
              [] \<Rightarrow> (Some IndexError, Some [])
            | first # _ \<Rightarrow>
                (let fieldnames = map fst first;
                     header = map JStr fieldnames
                 in if \<not> row_encodable header then (Some UnicodeEncodeError, Some [])
                    else (let res = writerows fieldnames papers [header]
                          in (fst res, Some (snd res))))))"

section \<open>The driver\<close>

record args =
  query :: pystr
  debug :: bool
  file_arg :: "pystr option"

datatype level = DEBUG | INFO | WARNING | ERROR

datatype log_event =
    FetchingIds pystr
  | FoundIds json
  | FetchingDetails
  | NoPapersFound
  | SavingResults pystr
  | AnErrorOccurred py_error

text \<open>
  The logger starts at level \<open>INFO\<close>; \<open>--debug\<close> lowers it to \<open>DEBUG\<close>. A record
  below the level is not emitted.
\<close>

definition emitted :: "bool \<Rightarrow> (level \<times> log_event) list \<Rightarrow> (level \<times> log_event) list" where
  "emitted dbg records = filter (\<lambda>r. fst r \<noteq> DEBUG \<or> dbg) records"

text \<open>
  What a run leaves behind: the exit code, the emitted log records, the papers printed,
  and the file written (its name and rows), if one was opened.
\<close>

record outcome =
  exit_code :: nat
  logged :: "(level \<times> log_event) list"
  printed :: "paper list"
  written :: "(pystr \<times> json list list) option"

text \<open>\<open>if args.file:\<close> holds for a file name that is given and not empty (the field
  \<open>file_arg\<close> is \<open>args.file\<close>).\<close>

definition file_given :: "args \<Rightarrow> bool" where
  "file_given a = (case file_arg a of None \<Rightarrow> False | Some f \<Rightarrow> f \<noteq> [])"

text \<open>
  \<open>main\<close>, after the arguments are parsed. \<open>sys.exit(0)\<close> raises \<open>SystemExit\<close>, which
  \<open>except Exception\<close> does not catch; every error of the model is caught there.
\<close>

definition main :: "args \<Rightarrow> world \<Rightarrow> outcome" where
  "main a w =
     (let log0 = [(INFO, FetchingIds (query a))] in
      case fetch_pubmed_ids w (query a) of
        Inl e \<Rightarrow>
          \<lparr>exit_code = 1, logged = emitted (debug a) (log0 @ [(ERROR, AnErrorOccurred e)]),
           printed = [], written = None\<rparr>
      | Inr ids \<Rightarrow>
          (let log1 = log0 @ [(DEBUG, FoundIds ids), (INFO, FetchingDetails)] in
           case fetch_paper_details w ids of
             Inl e \<Rightarrow>
               \<lparr>exit_code = 1, logged = emitted (debug a) (log1 @ [(ERROR, AnErrorOccurred e)]),
                printed = [], written = None\<rparr>
           | Inr papers \<Rightarrow>
               if papers = [] then
                 \<lparr>exit_code = 0, logged = emitted (debug a) (log1 @ [(WARNING, NoPapersFound)]),
                  printed = [], written = None\<rparr>
               else if file_given a then
                 (let filename = the (file_arg a);
                      log2 = log1 @ [(INFO, SavingResults filename)];
                      res = save_to_csv w papers filename;
                      out = map_option (\<lambda>rows. (filename, rows)) (snd res)
                  in case fst res of
                       Some e \<Rightarrow>
                         \<lparr>exit_code = 1,
                          logged = emitted (debug a) (log2 @ [(ERROR, AnErrorOccurred e)]),
                          printed = [], written = out\<rparr>
                     | None \<Rightarrow>
                         \<lparr>exit_code = 0, logged = emitted (debug a) log2,
                          printed = [], written = out\<rparr>)
               else
                 \<lparr>exit_code = 0, logged = emitted (debug a) log1,
                  printed = papers, written = None\<rparr>))"

section \<open>The specification's notions\<close>




text \<open>An AuthorRecord \<open>{name, affiliation}\<close> of the data model, as the service sends it.\<close>

definition author_record :: "pystr \<Rightarrow> pystr \<Rightarrow> json" where
  "author_record name affiliation =
     JDict [(ascii ''name'', JStr name), (ascii ''affiliation'', JStr affiliation)]"


text \<open>
  The result object that \<open>fetch_paper_details\<close> reads from the summary service for the
  identifiers \<open>ids\<close>: \<open>response.json().get('result', {})\<close>, or the exception raised on
  the way.
\<close>

definition summaries_of :: "world \<Rightarrow> pystr list \<Rightarrow> py_error + json" where
  "summaries_of w ids =
     (case get_json w PUBMED_SUMMARY_URL (esummary_params (str_join (ascii '','') ids)) of
        Inl e \<Rightarrow> Inl e
      | Inr body \<Rightarrow> py_get body (ascii ''result'') (JDict []))"

text \<open>
  A summary typed as the data model says: a dict whose \<open>authors\<close>, if present, is a list
  of dicts whose \<open>name\<close> and \<open>affiliation\<close>, if present, are strings. A result object is
  typed for \<open>ids\<close> when the summaries it holds for them are.
\<close>

fun is_str :: "json \<Rightarrow> bool" where
  "is_str (JStr s) = True"
| "is_str _ = False"

fun typed_author :: "json \<Rightarrow> bool" where
  "typed_author (JDict d) =
     ((case map_of d (ascii ''name'') of None \<Rightarrow> True | Some v \<Rightarrow> is_str v) \<and>
      (case map_of d (ascii ''affiliation'') of None \<Rightarrow> True | Some v \<Rightarrow> is_str v))"
| "typed_author _ = False"

fun typed_summary :: "json \<Rightarrow> bool" where
  "typed_summary (JDict d) =
     (case map_of d (ascii ''authors'') of
        None \<Rightarrow> True
      | Some (JList authors) \<Rightarrow> list_all typed_author authors
      | Some _ \<Rightarrow> False)"
| "typed_summary _ = False"

definition typed_result :: "(pystr \<times> json) list \<Rightarrow> pystr list \<Rightarrow> bool" where
  "typed_result result ids =
     list_all (\<lambda>pid. case map_of result pid of None \<Rightarrow> True | Some s \<Rightarrow> typed_summary s) ids"

text \<open>The record with every field null but the identifier.\<close>

definition null_paper :: "pystr \<Rightarrow> paper" where
  "null_paper pid =
     [(ascii ''PubmedID'', JStr pid),
      (ascii ''Title'', JNull),
      (ascii ''Publication Date'', JNull),
      (ascii ''Non-academic Author(s)'', JNull),
      (ascii ''Company Affiliation(s)'', JNull),
      (ascii ''Corresponding Author Email'', JNull)]"


text \<open>
  A run to evaluate: the search finds the identifiers 1 and 2, the summary service knows
  paper 1 only, with one non-academic and one academic author.
\<close>

definition example_summary :: json where
  "example_summary =
     JDict [(ascii ''title'', JStr (ascii ''X'')),
            (ascii ''pubdate'', JStr (ascii ''2020'')),
            (ascii ''authors'',
               JList [author_record (ascii ''J. Doe'') (ascii ''Acme Biotech Inc.''),
                      author_record (ascii ''A. Smith'')
                        (ascii ''Dept. of Chemistry, MIT University'')]),
            (ascii ''elocationid'', JStr (ascii ''doi: 10.1/x''))]"

definition example_ids :: "pystr list" where
  "example_ids = [ascii ''1'', ascii ''2'']"

definition example_world :: world where
  "example_world =
     \<lparr>http_get = (\<lambda>url params.
        if url = PUBMED_API_URL
        then Response 200 (Some (JDict [(ascii ''esearchresult'',
               JDict [(ascii ''idlist'', JList (map JStr example_ids))])]))
        else Response 200 (Some (JDict [(ascii ''result'',
               JDict [(ascii ''1'', example_summary)])]))),
      can_open = (\<lambda>filename. True)\<rparr>"

definition example_paper :: paper where
  "example_paper =
     [(ascii ''PubmedID'', JStr (ascii ''1'')),
      (ascii ''Title'', JStr (ascii ''X'')),
      (ascii ''Publication Date'', JStr (ascii ''2020'')),
      (ascii ''Non-academic Author(s)'', JStr (ascii ''J. Doe'')),
      (ascii ''Company Affiliation(s)'', JStr (ascii ''Acme Biotech Inc.'')),
      (ascii ''Corresponding Author Email'', JStr (ascii ''doi: 10.1/x''))]"


text \<open>A search service that ignores \<open>retmax\<close> and sends 21 identifiers.\<close>

definition twenty_one_ids :: "json list" where
  "twenty_one_ids =
     map JStr [ascii ''1'', ascii ''2'', ascii ''3'', ascii ''4'', ascii ''5'', ascii ''6'',
       ascii ''7'', ascii ''8'', ascii ''9'', ascii ''10'', ascii ''11'', ascii ''12'',
       ascii ''13'', ascii ''14'', ascii ''15'', ascii ''16'', ascii ''17'', ascii ''18'',
       ascii ''19'', ascii ''20'', ascii ''21'']"

definition overfull_world :: world where
  "overfull_world =
     \<lparr>http_get = (\<lambda>url params.
        Response 200 (Some (JDict [(ascii ''esearchresult'',
          JDict [(ascii ''idlist'', JList twenty_one_ids)])]))),
      can_open = (\<lambda>filename. True)\<rparr>"

text \<open>No identifier found, and a summary service that answers 500.\<close>

definition failing_summary_world :: world where
  "failing_summary_world =
     \<lparr>http_get = (\<lambda>url params.
        if url = PUBMED_API_URL
        then Response 200 (Some (JDict [(ascii ''esearchresult'',
               JDict [(ascii ''idlist'', JList [])])]))
        else Response 500 None),
      can_open = (\<lambda>filename. True)\<rparr>"

text \<open>No identifier found, and a summary service that answers without a result object.\<close>

definition empty_result_world :: world where
  "empty_result_world =
     \<lparr>http_get = (\<lambda>url params.
        if url = PUBMED_API_URL
        then Response 200 (Some (JDict [(ascii ''esearchresult'',
               JDict [(ascii ''idlist'', JList [])])]))
        else Response 200 (Some (JDict [(ascii ''esummaryresult'',
               JList [JStr (ascii ''Empty id list - nothing todo'')])]))),
      can_open = (\<lambda>filename. True)\<rparr>"

definition example_args :: args where
  "example_args = \<lparr>query = ascii ''cancer'', debug = False, file_arg = Some (ascii ''out.csv'')\<rparr>"

text \<open>A record whose row the file accepts: no str field holds a surrogate.\<close>

definition encodable_record :: "paper \<Rightarrow> bool" where
  "encodable_record p = list_all cell_encodable (map snd p)"

text \<open>
  A run whose second record cannot be written: the title of paper 2 is the lone
  surrogate U+D800.
\<close>

definition surrogate_world :: world where
  "surrogate_world =
     \<lparr>http_get = (\<lambda>url params.
        if url = PUBMED_API_URL
        then Response 200 (Some (JDict [(ascii ''esearchresult'',
               JDict [(ascii ''idlist'', JList (map JStr example_ids))])]))
        else Response 200 (Some (JDict [(ascii ''result'',
               JDict [(ascii ''1'', JDict [(ascii ''title'', JStr (ascii ''ok''))]),
                      (ascii ''2'', JDict [(ascii ''title'', JStr [55296])])])]))),
      can_open = (\<lambda>filename. True)\<rparr>"

definition titled_paper :: "pystr \<Rightarrow> pystr \<Rightarrow> paper" where
  "titled_paper pid title =
     [(ascii ''PubmedID'', JStr pid),
      (ascii ''Title'', JStr title),
      (ascii ''Publication Date'', JNull),
      (ascii ''Non-academic Author(s)'', JNull),
      (ascii ''Company Affiliation(s)'', JNull),
      (ascii ''Corresponding Author Email'', JNull)]"

text \<open>The six field names of an OutputRecord, in the order of the data model.\<close>

definition FIELDS :: "pystr list" where
  "FIELDS = [ascii ''PubmedID'', ascii ''Title'', ascii ''Publication Date'',
             ascii ''Non-academic Author(s)'', ascii ''Company Affiliation(s)'',
             ascii ''Corresponding Author Email'']"

section \<open>The classifier\<close>













section \<open>The records\<close>

lemma papers_loop_acc:
  "papers_loop summaries pids acc =
     (case papers_loop summaries pids [] of Inl e \<Rightarrow> Inl e | Inr ps \<Rightarrow> Inr (acc @ ps))"
proof (induction pids arbitrary: acc)
  case Nil
  then show ?case by simp
next
  case (Cons pid pids)
  have step: "papers_loop summaries pids xs =
     (case papers_loop summaries pids [] of Inl e \<Rightarrow> Inl e | Inr ps \<Rightarrow> Inr (xs @ ps))" for xs
    by (rule Cons.IH)
  show ?case
  proof (cases "paper_of summaries pid")
    case (Inl e)
    then show ?thesis by simp
  next
    case (Inr p)
    then show ?thesis
      by (simp add: step [of "acc @ [p]"] step [of "[p]"] split: sum.splits)
  qed
qed

lemma papers_loop_Cons:
  "papers_loop summaries (pid # pids) [] =
     (case paper_of summaries pid of
        Inl e \<Rightarrow> Inl e
      | Inr p \<Rightarrow> (case papers_loop summaries pids [] of Inl e \<Rightarrow> Inl e | Inr ps \<Rightarrow> Inr (p # ps)))"
  by (simp add: papers_loop_acc [of summaries pids "[_]"] split: sum.splits)

lemma papers_loop_returns:
  "papers_loop summaries pids [] = Inr papers \<Longrightarrow>
   list_all2 (\<lambda>pid p. paper_of summaries pid = Inr p) pids papers"
proof (induction pids arbitrary: papers)
  case Nil
  then show ?case by simp
next
  case (Cons pid pids)
  then show ?case
    by (auto simp: papers_loop_Cons simp del: papers_loop.simps(2) split: sum.splits)
qed

lemma papers_loop_total:
  "list_all (\<lambda>pid. \<exists>p. paper_of summaries pid = Inr p) pids \<Longrightarrow>
   \<exists>papers. papers_loop summaries pids [] = Inr papers"
proof (induction pids)
  case Nil
  then show ?case by simp
next
  case (Cons pid pids)
  then show ?case
    by (auto simp: papers_loop_Cons simp del: papers_loop.simps(2) split: sum.splits)
qed

lemma as_strs_map_JStr: "as_strs (map JStr ids) = Inr ids"
  by (induction ids) auto

lemma fetch_paper_details_ids:
  "fetch_paper_details w (JList (map JStr ids)) =
     (case summaries_of w ids of Inl e \<Rightarrow> Inl e | Inr summaries \<Rightarrow> papers_loop summaries ids [])"
  by (simp add: fetch_paper_details_def summaries_of_def as_strs_map_JStr split: sum.splits)

lemma paper_of_absent:
  "map_of result pid = None \<Longrightarrow>
   paper_of (JDict result) pid =
     Inr [(ascii ''PubmedID'', JStr pid),
          (ascii ''Title'', JNull),
          (ascii ''Publication Date'', JNull),
          (ascii ''Non-academic Author(s)'', JNull),
          (ascii ''Company Affiliation(s)'', JNull),
          (ascii ''Corresponding Author Email'', JNull)]"
  by (simp add: paper_of_def join_or_None_def py_join_def or_None_def)

lemma paper_of_PubmedID:
  "paper_of summaries pid = Inr p \<Longrightarrow> map_of p (ascii ''PubmedID'') = Some (JStr pid)"
  by (auto simp: paper_of_def split: sum.splits prod.splits)

lemma paper_of_keys:
  "paper_of summaries pid = Inr p \<Longrightarrow>
   map fst p = [ascii ''PubmedID'', ascii ''Title'', ascii ''Publication Date'',
                ascii ''Non-academic Author(s)'', ascii ''Company Affiliation(s)'',
                ascii ''Corresponding Author Email'']"
  by (auto simp: paper_of_def split: sum.splits prod.splits)

lemma is_str_iff: "is_str v = (\<exists>s. v = JStr s)"
  by (cases v) auto

lemma as_strs_total: "list_all is_str xs \<Longrightarrow> \<exists>ss. as_strs xs = Inr ss"
proof (induction xs)
  case Nil
  then show ?case by simp
next
  case (Cons x xs)
  then show ?case by (auto simp: is_str_iff)
qed

lemma join_or_None_total: "list_all is_str xs \<Longrightarrow> \<exists>v. join_or_None xs = Inr v"
  using as_strs_total [of xs] by (auto simp: join_or_None_def py_join_def)

lemma typed_author_step:
  assumes "typed_author a"
  obtains n f where "is_str n" "is_str f"
    "classify_loop (a # authors) (ns, cs) =
       (if \<exists>s. f = JStr s \<and> re_search PATTERN s then classify_loop authors (ns, cs)
        else classify_loop authors (ns @ [n], cs @ [f]))"
proof -
  from assms obtain d where a: "a = JDict d" by (cases a) auto
  define n where "n = (case map_of d (ascii ''name'') of None \<Rightarrow> JStr [] | Some v \<Rightarrow> v)"
  define f where "f = (case map_of d (ascii ''affiliation'') of None \<Rightarrow> JStr [] | Some v \<Rightarrow> v)"
  from assms a have n: "is_str n" and f: "is_str f"
    by (auto simp: n_def f_def split: option.splits)
  from f obtain s where s: "f = JStr s" by (auto simp: is_str_iff)
  have "classify_loop (a # authors) (ns, cs) =
       (if \<exists>s. f = JStr s \<and> re_search PATTERN s then classify_loop authors (ns, cs)
        else classify_loop authors (ns @ [n], cs @ [f]))"
    using s by (simp add: a n_def [symmetric] f_def [symmetric])
  with n f show thesis by (rule that)
qed

lemma classify_loop_typed:
  "list_all typed_author authors \<Longrightarrow> list_all is_str ns \<Longrightarrow> list_all is_str cs \<Longrightarrow>
   \<exists>ns' cs'. classify_loop authors (ns, cs) = Inr (ns', cs') \<and>
     list_all is_str ns' \<and> list_all is_str cs'"
proof (induction authors arbitrary: ns cs)
  case Nil
  then show ?case by simp
next
  case (Cons a authors)
  from Cons.prems have ta: "typed_author a" and rest: "list_all typed_author authors"
    by simp_all
  from ta obtain n f where n: "is_str n" and f: "is_str f" and
    step: "classify_loop (a # authors) (ns, cs) =
       (if \<exists>s. f = JStr s \<and> re_search PATTERN s then classify_loop authors (ns, cs)
        else classify_loop authors (ns @ [n], cs @ [f]))"
    by (rule typed_author_step)
  show ?case
  proof (cases "\<exists>s. f = JStr s \<and> re_search PATTERN s")
    case True
    with step have "classify_loop (a # authors) (ns, cs) = classify_loop authors (ns, cs)"
      by simp
    with Cons.IH [OF rest Cons.prems(2) Cons.prems(3)] show ?thesis by simp
  next
    case False
    with step have "classify_loop (a # authors) (ns, cs) =
        classify_loop authors (ns @ [n], cs @ [f])"
      by simp
    moreover have "list_all is_str (ns @ [n])" "list_all is_str (cs @ [f])"
      using n f Cons.prems by simp_all
    ultimately show ?thesis using Cons.IH [OF rest] by simp
  qed
qed

lemma paper_of_typed:
  assumes "typed_summary s" and "map_of result pid = Some s"
  shows "\<exists>p. paper_of (JDict result) pid = Inr p"
proof -
  from assms(1) obtain d where s: "s = JDict d" by (cases s) auto
  define authors where
    "authors = (case map_of d (ascii ''authors'') of None \<Rightarrow> [] | Some (JList xs) \<Rightarrow> xs | Some _ \<Rightarrow> [])"
  have it: "py_iter (case map_of d (ascii ''authors'') of None \<Rightarrow> JList [] | Some v \<Rightarrow> v) = Inr authors"
    and ta: "list_all typed_author authors"
    using assms(1) by (auto simp: s authors_def split: option.splits json.splits)
  from classify_loop_typed [OF ta, of "[]" "[]"] obtain ns cs where
    cl: "classify_loop authors ([], []) = Inr (ns, cs)" and
    ns: "list_all is_str ns" and cs: "list_all is_str cs"
    by auto
  from join_or_None_total [OF ns] obtain nv where nv: "join_or_None ns = Inr nv" ..
  from join_or_None_total [OF cs] obtain cv where cv: "join_or_None cs = Inr cv" ..
  show ?thesis
    by (simp add: paper_of_def assms(2) s it cl nv cv)
qed

lemma paper_of_typed_result:
  assumes "case map_of result pid of None \<Rightarrow> True | Some s \<Rightarrow> typed_summary s"
  shows "\<exists>p. paper_of (JDict result) pid = Inr p"
proof (cases "map_of result pid")
  case None
  then show ?thesis by (simp add: paper_of_absent)
next
  case (Some s)
  with assms show ?thesis by (simp add: paper_of_typed)
qed

lemma fetch_paper_details_total:
  assumes "summaries_of w ids = Inr (JDict result)" and "typed_result result ids"
  shows "\<exists>papers. fetch_paper_details w (JList (map JStr ids)) = Inr papers"
proof -
  from assms(2) have "list_all (\<lambda>pid. \<exists>p. paper_of (JDict result) pid = Inr p) ids"
    by (auto simp: typed_result_def list_all_iff intro: paper_of_typed_result)
  then show ?thesis
    using assms(1) by (simp add: fetch_paper_details_ids papers_loop_total)
qed

lemma fetch_paper_details_nth:
  assumes "fetch_paper_details w (JList (map JStr ids)) = Inr papers"
  shows "length papers = length ids"
    and "i < length ids \<Longrightarrow>
         \<exists>summaries. summaries_of w ids = Inr summaries \<and>
           paper_of summaries (ids ! i) = Inr (papers ! i)"
proof -
  from assms obtain summaries where
    s: "summaries_of w ids = Inr summaries" and
    l: "papers_loop summaries ids [] = Inr papers"
    by (auto simp: fetch_paper_details_ids split: sum.splits)
  from papers_loop_returns [OF l]
  have all: "list_all2 (\<lambda>pid p. paper_of summaries pid = Inr p) ids papers" .
  then show "length papers = length ids"
    by (simp add: list_all2_lengthD)
  show "\<exists>summaries. summaries_of w ids = Inr summaries \<and>
           paper_of summaries (ids ! i) = Inr (papers ! i)" if "i < length ids"
    using s list_all2_nthD [OF all that] by blast
qed

lemma urls_differ: "PUBMED_SUMMARY_URL \<noteq> PUBMED_API_URL"
  by (simp add: PUBMED_SUMMARY_URL_def PUBMED_API_URL_def ascii_def)

lemma example_summaries:
  "summaries_of example_world example_ids = Inr (JDict [(ascii ''1'', example_summary)])"
  by (simp add: summaries_of_def get_json_def example_world_def urls_differ)

lemma example_paper_of:
  "paper_of (JDict [(ascii ''1'', example_summary)]) (ascii ''1'') = Inr example_paper"
  apply (simp add: paper_of_def example_summary_def example_paper_def)
  apply (simp add: ascii_def author_record_def PATTERN_def ignorecase_eq_def
      join_or_None_def py_join_def or_None_def)
  done

lemma example_fetch:
  "fetch_paper_details example_world (JList (map JStr example_ids)) =
     Inr [example_paper, null_paper (ascii ''2'')]"
proof -
  have absent: "map_of [(ascii ''1'', example_summary)] (ascii ''2'') = None"
    by (simp add: ascii_def)
  show ?thesis
    by (simp add: fetch_paper_details_ids example_summaries)
      (simp add: example_ids_def example_paper_of paper_of_absent [OF absent]
        null_paper_def)
qed







lemma paper_of_email:
  assumes "paper_of summaries pid = Inr p"
    and "py_get summaries pid (JDict []) = Inr (JDict summary)"
  shows "map_of p (ascii ''Corresponding Author Email'') =
     Some (or_None (case map_of summary (ascii ''elocationid'') of
                      None \<Rightarrow> JStr [] | Some v \<Rightarrow> v))"
proof -
  have neq: "ascii ''Corresponding Author Email'' \<noteq> ascii ''PubmedID''"
    "ascii ''Corresponding Author Email'' \<noteq> ascii ''Title''"
    "ascii ''Corresponding Author Email'' \<noteq> ascii ''Publication Date''"
    "ascii ''Corresponding Author Email'' \<noteq> ascii ''Non-academic Author(s)''"
    "ascii ''Corresponding Author Email'' \<noteq> ascii ''Company Affiliation(s)''"
    by (simp_all add: ascii_def)
  from assms show ?thesis
    by (auto simp: paper_of_def neq split: sum.splits prod.splits)
qed

text \<open>
  C2. \<open>fetch_paper_details\<close> returns one record per identifier, in the order of the
  identifiers: whenever it returns, the list of records is as long as the list of
  identifiers and the record at position \<open>i\<close> carries the identifier at position \<open>i\<close>; a
  record whose identifier is absent from the response's result object has its five other
  fields null. It does return for every response whose result object holds, for the
  identifiers present, summaries typed as the data model says.
\<close>

theorem one_record_per_identifier:
  "(summaries_of w ids = Inr (JDict result) \<and> typed_result result ids \<longrightarrow>
      (\<exists>papers. fetch_paper_details w (JList (map JStr ids)) = Inr papers)) \<and>
   (fetch_paper_details w (JList (map JStr ids)) = Inr papers \<longrightarrow>
      length papers = length ids \<and>
      (\<forall>i<length ids.
         map_of (papers ! i) (ascii ''PubmedID'') = Some (JStr (ids ! i)) \<and>
         (summaries_of w ids = Inr (JDict result) \<and> map_of result (ids ! i) = None \<longrightarrow>
            papers ! i = null_paper (ids ! i))))"
proof (intro conjI impI allI)
  assume "summaries_of w ids = Inr (JDict result) \<and> typed_result result ids"
  then show "\<exists>papers. fetch_paper_details w (JList (map JStr ids)) = Inr papers"
    by (simp add: fetch_paper_details_total)
next
  assume "fetch_paper_details w (JList (map JStr ids)) = Inr papers"
  then show "length papers = length ids"
    by (rule fetch_paper_details_nth(1))
next
  fix i
  assume run: "fetch_paper_details w (JList (map JStr ids)) = Inr papers"
    and i: "i < length ids"
  from fetch_paper_details_nth(2) [OF run i] obtain summaries where
    s: "summaries_of w ids = Inr summaries" and
    p: "paper_of summaries (ids ! i) = Inr (papers ! i)"
    by blast
  from p show "map_of (papers ! i) (ascii ''PubmedID'') = Some (JStr (ids ! i))"
    by (rule paper_of_PubmedID)
  assume "summaries_of w ids = Inr (JDict result) \<and> map_of result (ids ! i) = None"
  then have r: "summaries_of w ids = Inr (JDict result)"
    and n: "map_of result (ids ! i) = None"
    by simp_all
  from s r have "summaries = JDict result"
    by simp
  with p paper_of_absent [OF n] show "papers ! i = null_paper (ids ! i)"
    by (simp add: null_paper_def)
qed

theorem one_record_per_identifier_witness:
  "(\<exists>papers. fetch_paper_details example_world (JList (map JStr example_ids)) = Inr papers) \<and>
   fetch_paper_details example_world (JList (map JStr example_ids)) =
     Inr [example_paper, null_paper (ascii ''2'')] \<and>
   length [example_paper, null_paper (ascii ''2'')] = length example_ids \<and>
   map_of ([example_paper, null_paper (ascii ''2'')] ! 1) (ascii ''PubmedID'') =
     Some (JStr (example_ids ! 1)) \<and>
   [example_paper, null_paper (ascii ''2'')] ! 1 = null_paper (example_ids ! 1)"
proof -
  have typed: "typed_result [(ascii ''1'', example_summary)] example_ids"
    by (simp add: typed_result_def example_ids_def example_summary_def author_record_def
        ascii_def)
  have absent: "map_of [(ascii ''1'', example_summary)] (example_ids ! 1) = None"
    by (simp add: example_ids_def ascii_def)
  have one: "1 < length example_ids"
    by (simp add: example_ids_def)
  note claim = one_record_per_identifier [of example_world example_ids
      "[(ascii ''1'', example_summary)]" "[example_paper, null_paper (ascii ''2'')]"]
  from claim example_summaries typed
  have "\<exists>papers. fetch_paper_details example_world (JList (map JStr example_ids)) = Inr papers"
    by blast
  moreover from claim example_fetch one example_summaries absent
  have "length [example_paper, null_paper (ascii ''2'')] = length example_ids \<and>
   map_of ([example_paper, null_paper (ascii ''2'')] ! 1) (ascii ''PubmedID'') =
     Some (JStr (example_ids ! 1)) \<and>
   [example_paper, null_paper (ascii ''2'')] ! 1 = null_paper (example_ids ! 1)"
    by blast
  ultimately show ?thesis using example_fetch by blast
qed

text \<open>
  C9. The PubmedID field of the record at position \<open>i\<close> is the identifier at position
  \<open>i\<close>, a string and never null, whatever the response holds for it; each of the five
  other fields can be null (they all are for an identifier the response does not know).
\<close>

theorem pubmed_id_never_null:
  "(fetch_paper_details w (JList (map JStr ids)) = Inr papers \<and> i < length ids \<longrightarrow>
      map_of (papers ! i) (ascii ''PubmedID'') = Some (JStr (ids ! i)) \<and>
      map_of (papers ! i) (ascii ''PubmedID'') \<noteq> Some JNull) \<and>
   paper_of (JDict []) pid = Inr (null_paper pid)"
proof (intro conjI impI)
  assume "fetch_paper_details w (JList (map JStr ids)) = Inr papers \<and> i < length ids"
  then obtain summaries where "paper_of summaries (ids ! i) = Inr (papers ! i)"
    using fetch_paper_details_nth(2) by blast
  then have "map_of (papers ! i) (ascii ''PubmedID'') = Some (JStr (ids ! i))"
    by (rule paper_of_PubmedID)
  then show "map_of (papers ! i) (ascii ''PubmedID'') = Some (JStr (ids ! i))"
    and "map_of (papers ! i) (ascii ''PubmedID'') \<noteq> Some JNull"
    by simp_all
next
  show "paper_of (JDict []) pid = Inr (null_paper pid)"
    by (simp add: paper_of_absent null_paper_def)
qed

theorem pubmed_id_never_null_witness:
  "map_of ([example_paper, null_paper (ascii ''2'')] ! 1) (ascii ''PubmedID'') =
     Some (JStr (example_ids ! 1)) \<and>
   map_of ([example_paper, null_paper (ascii ''2'')] ! 1) (ascii ''PubmedID'') \<noteq> Some JNull \<and>
   paper_of (JDict []) (ascii ''2'') = Inr (null_paper (ascii ''2''))"
proof -
  have one: "1 < length example_ids"
    by (simp add: example_ids_def)
  from pubmed_id_never_null [of example_world example_ids
      "[example_paper, null_paper (ascii ''2'')]" 1 "ascii ''2''"] example_fetch one
  show ?thesis by blast
qed

text \<open>
  C6. The Corresponding Author Email field of a record is the \<open>elocationid\<close> field of its
  summary; it is null when the summary has no such field, and when the field is the empty
  string (or null).
\<close>

theorem email_from_elocationid:
  assumes "fetch_paper_details w (JList (map JStr ids)) = Inr papers"
    and "i < length ids"
    and "summaries_of w ids = Inr summaries"
    and "py_get summaries (ids ! i) (JDict []) = Inr (JDict summary)"
  shows "(map_of summary (ascii ''elocationid'') = None \<longrightarrow>
            map_of (papers ! i) (ascii ''Corresponding Author Email'') = Some JNull) \<and>
         (map_of summary (ascii ''elocationid'') = Some (JStr []) \<longrightarrow>
            map_of (papers ! i) (ascii ''Corresponding Author Email'') = Some JNull) \<and>
         (map_of summary (ascii ''elocationid'') = Some JNull \<longrightarrow>
            map_of (papers ! i) (ascii ''Corresponding Author Email'') = Some JNull) \<and>
         (\<forall>v. map_of summary (ascii ''elocationid'') = Some v \<and> py_truthy v \<longrightarrow>
            map_of (papers ! i) (ascii ''Corresponding Author Email'') = Some v)"
proof -
  from fetch_paper_details_nth(2) [OF assms(1) assms(2)] assms(3)
  have "paper_of summaries (ids ! i) = Inr (papers ! i)"
    by auto
  from paper_of_email [OF this assms(4)] show ?thesis
    by (auto simp: or_None_def)
qed

theorem email_from_elocationid_witness:
  "map_of ([example_paper, null_paper (ascii ''2'')] ! 0) (ascii ''Corresponding Author Email'') =
     Some (JStr (ascii ''doi: 10.1/x''))"
proof -
  have zero: "0 < length example_ids"
    by (simp add: example_ids_def)
  have summary: "py_get (JDict [(ascii ''1'', example_summary)]) (example_ids ! 0) (JDict []) =
      Inr (JDict [(ascii ''title'', JStr (ascii ''X'')),
            (ascii ''pubdate'', JStr (ascii ''2020'')),
            (ascii ''authors'',
               JList [author_record (ascii ''J. Doe'') (ascii ''Acme Biotech Inc.''),
                      author_record (ascii ''A. Smith'')
                        (ascii ''Dept. of Chemistry, MIT University'')]),
            (ascii ''elocationid'', JStr (ascii ''doi: 10.1/x''))])"
    by (simp add: example_ids_def example_summary_def)
  have field: "map_of [(ascii ''title'', JStr (ascii ''X'')),
            (ascii ''pubdate'', JStr (ascii ''2020'')),
            (ascii ''authors'',
               JList [author_record (ascii ''J. Doe'') (ascii ''Acme Biotech Inc.''),
                      author_record (ascii ''A. Smith'')
                        (ascii ''Dept. of Chemistry, MIT University'')]),
            (ascii ''elocationid'', JStr (ascii ''doi: 10.1/x''))] (ascii ''elocationid'') =
        Some (JStr (ascii ''doi: 10.1/x'')) \<and> py_truthy (JStr (ascii ''doi: 10.1/x''))"
    by (simp add: ascii_def)
  from email_from_elocationid [OF example_fetch zero example_summaries summary] field
  show ?thesis by blast
qed




section \<open>The resolver and the driver\<close>

lemma key_idlist: "ascii ''idlist'' \<noteq> ascii ''esearchresult''"
  by (simp add: ascii_def)

text \<open>
  C8, as stated, fails: the resolver returns whatever list the service sends; a response
  with 21 identifiers comes back with 21.
\<close>

theorem at_most_twenty_counterexample:
  "fetch_pubmed_ids overfull_world (ascii ''cancer'') = Inr (JList twenty_one_ids) \<and>
   length twenty_one_ids = 21"
  by (simp add: fetch_pubmed_ids_def get_json_def overfull_world_def)
    (simp add: twenty_one_ids_def)

text \<open>
  C8, amended. The resolver asks for \<open>retmax = 20\<close>, and returns the \<open>idlist\<close> of the
  response's \<open>esearchresult\<close> as it is, in the server's order and at the server's length;
  it returns the empty list when the envelope has no \<open>esearchresult\<close> or that object has
  no \<open>idlist\<close>. The list has at most 20 entries only if the service honours \<open>retmax\<close>.
\<close>

theorem idlist_returned_verbatim:
  "map_of (esearch_params q) (ascii ''retmax'') = Some (JInt 20) \<and>
   (get_json w PUBMED_API_URL (esearch_params q) = Inr (JDict envelope) \<longrightarrow>
      (map_of envelope (ascii ''esearchresult'') = None \<longrightarrow>
         fetch_pubmed_ids w q = Inr (JList [])) \<and>
      (\<forall>result. map_of envelope (ascii ''esearchresult'') = Some (JDict result) \<longrightarrow>
         (map_of result (ascii ''idlist'') = None \<longrightarrow>
            fetch_pubmed_ids w q = Inr (JList [])) \<and>
         (\<forall>ids. map_of result (ascii ''idlist'') = Some ids \<longrightarrow>
            fetch_pubmed_ids w q = Inr ids)))"
proof -
  have "map_of (esearch_params q) (ascii ''retmax'') = Some (JInt 20)"
    by (simp add: esearch_params_def ascii_def)
  then show ?thesis
    by (simp add: fetch_pubmed_ids_def)
qed

lemma example_esearch:
  "get_json example_world PUBMED_API_URL (esearch_params q) =
     Inr (JDict [(ascii ''esearchresult'',
            JDict [(ascii ''idlist'', JList (map JStr example_ids))])])"
  by (simp add: get_json_def example_world_def)

theorem idlist_returned_verbatim_witness:
  "map_of (esearch_params (ascii ''cancer'')) (ascii ''retmax'') = Some (JInt 20) \<and>
   fetch_pubmed_ids example_world (ascii ''cancer'') = Inr (JList (map JStr example_ids))"
proof -
  have "map_of [(ascii ''esearchresult'',
            JDict [(ascii ''idlist'', JList (map JStr example_ids))])] (ascii ''esearchresult'') =
      Some (JDict [(ascii ''idlist'', JList (map JStr example_ids))])"
    "map_of [(ascii ''idlist'', JList (map JStr example_ids))] (ascii ''idlist'') =
      Some (JList (map JStr example_ids))"
    by simp_all
  with idlist_returned_verbatim [of "ascii ''cancer''" example_world
      "[(ascii ''esearchresult'', JDict [(ascii ''idlist'', JList (map JStr example_ids))])]"]
    example_esearch [of "ascii ''cancer''"]
  show ?thesis by blast
qed

text \<open>
  C10. Two runs that differ only in the debug flag end with the same exit code, print
  the same records and write the same file; their logs differ only in the \<open>DEBUG\<close>
  records.
\<close>

theorem debug_flag_only_changes_the_log:
  "exit_code (main (a\<lparr>debug := True\<rparr>) w) = exit_code (main (a\<lparr>debug := False\<rparr>) w) \<and>
   printed (main (a\<lparr>debug := True\<rparr>) w) = printed (main (a\<lparr>debug := False\<rparr>) w) \<and>
   written (main (a\<lparr>debug := True\<rparr>) w) = written (main (a\<lparr>debug := False\<rparr>) w) \<and>
   filter (\<lambda>r. fst r \<noteq> DEBUG) (logged (main (a\<lparr>debug := True\<rparr>) w)) =
     logged (main (a\<lparr>debug := False\<rparr>) w)"
  by (simp add: main_def Let_def emitted_def file_given_def
      split: sum.splits option.splits)

lemma fetch_paper_details_no_ids:
  "fetch_paper_details w (JList []) =
     (case summaries_of w [] of Inl e \<Rightarrow> Inl e | Inr summaries \<Rightarrow> Inr [])"
  using fetch_paper_details_ids [of w "[]"] by (simp split: sum.splits)

text \<open>
  C5, amended. When the query resolves to zero identifiers, no file is written and
  nothing is printed; the summary service is still called, with an empty id list: if
  that call succeeds the program logs the warning and exits with code 0, if it fails the
  program logs the error and exits with code 1.
\<close>

theorem zero_identifiers_amended:
  assumes "fetch_pubmed_ids w (query a) = Inr (JList [])"
  shows "written (main a w) = None \<and> printed (main a w) = [] \<and>
    (case summaries_of w [] of
       Inr summaries \<Rightarrow>
         exit_code (main a w) = 0 \<and>
         logged (main a w) = emitted (debug a)
           [(INFO, FetchingIds (query a)), (DEBUG, FoundIds (JList [])),
            (INFO, FetchingDetails), (WARNING, NoPapersFound)]
     | Inl e \<Rightarrow>
         exit_code (main a w) = 1 \<and>
         logged (main a w) = emitted (debug a)
           [(INFO, FetchingIds (query a)), (DEBUG, FoundIds (JList [])),
            (INFO, FetchingDetails), (ERROR, AnErrorOccurred e)])"
  by (simp add: main_def assms fetch_paper_details_no_ids split: sum.splits)

lemma failing_summary_esearch:
  "fetch_pubmed_ids failing_summary_world q = Inr (JList [])"
  by (simp add: fetch_pubmed_ids_def get_json_def failing_summary_world_def key_idlist)

lemma failing_summary_summaries:
  "summaries_of failing_summary_world [] = Inl HTTPError"
  by (simp add: summaries_of_def get_json_def failing_summary_world_def urls_differ)

text \<open>
  C5, as stated, fails: with zero identifiers and a summary service that answers 500,
  the run ends with exit code 1 and an error record, and no warning.
\<close>

theorem zero_identifiers_counterexample:
  "fetch_pubmed_ids failing_summary_world (query example_args) = Inr (JList []) \<and>
   exit_code (main example_args failing_summary_world) = 1 \<and>
   logged (main example_args failing_summary_world) =
     [(INFO, FetchingIds (ascii ''cancer'')), (INFO, FetchingDetails),
      (ERROR, AnErrorOccurred HTTPError)]"
  by (simp add: main_def failing_summary_esearch fetch_paper_details_no_ids
      failing_summary_summaries emitted_def)
    (simp add: example_args_def)

lemma empty_result_esearch:
  "fetch_pubmed_ids empty_result_world q = Inr (JList [])"
  by (simp add: fetch_pubmed_ids_def get_json_def empty_result_world_def key_idlist)

lemma empty_result_summaries:
  "summaries_of empty_result_world [] = Inr (JDict [])"
  by (simp add: summaries_of_def get_json_def empty_result_world_def urls_differ)
    (simp add: ascii_def)

theorem zero_identifiers_amended_witness:
  "written (main example_args empty_result_world) = None \<and>
   printed (main example_args empty_result_world) = [] \<and>
   exit_code (main example_args empty_result_world) = 0 \<and>
   logged (main example_args empty_result_world) =
     [(INFO, FetchingIds (ascii ''cancer'')), (INFO, FetchingDetails),
      (WARNING, NoPapersFound)]"
  using zero_identifiers_amended [OF empty_result_esearch [of "query example_args"]]
  by (simp add: empty_result_summaries emitted_def) (simp add: example_args_def)

section \<open>The CSV file\<close>

lemma paper_of_FIELDS: "paper_of summaries pid = Inr p \<Longrightarrow> map fst p = FIELDS"
  by (simp add: paper_of_keys FIELDS_def)

lemma dict_to_list_FIELDS:
  assumes "map fst p = FIELDS"
  shows "dict_to_list FIELDS p = Inr (map snd p)"
proof -
  from assms obtain v1 v2 v3 v4 v5 v6 where p:
    "p = [(ascii ''PubmedID'', v1), (ascii ''Title'', v2), (ascii ''Publication Date'', v3),
          (ascii ''Non-academic Author(s)'', v4), (ascii ''Company Affiliation(s)'', v5),
          (ascii ''Corresponding Author Email'', v6)]"
    by (auto simp: FIELDS_def map_eq_Cons_conv)
  show ?thesis
    unfolding p by (simp add: dict_to_list_def FIELDS_def ascii_def)
qed

lemma header_encodable: "row_encodable (map JStr FIELDS)"
  by (simp add: row_encodable_def FIELDS_def ascii_def is_surrogate_def)

lemma writerows_FIELDS:
  "list_all (\<lambda>p. map fst p = FIELDS) papers \<Longrightarrow>
   writerows FIELDS papers rows =
     (if list_all encodable_record papers then None else Some UnicodeEncodeError,
      rows @ map (map snd) (takeWhile encodable_record papers))"
  by (induction papers arbitrary: rows)
    (simp_all add: dict_to_list_FIELDS row_encodable_def encodable_record_def)

lemma save_to_csv_FIELDS:
  assumes "list_all (\<lambda>p. map fst p = FIELDS) papers" and "papers \<noteq> []"
  shows "save_to_csv w papers filename =
     (if can_open w filename
      then (if list_all encodable_record papers then None else Some UnicodeEncodeError,
            Some (map JStr FIELDS # map (map snd) (takeWhile encodable_record papers)))
      else (Some OSError, None))"
proof -
  from assms obtain p ps where ps: "papers = p # ps" and p: "map fst p = FIELDS"
    by (cases papers) auto
  from writerows_FIELDS [OF assms(1), of "[map JStr FIELDS]"] show ?thesis
    by (simp add: save_to_csv_def ps p Let_def header_encodable)
qed

lemma takeWhile_all: "list_all P xs \<Longrightarrow> takeWhile P xs = xs"
  by (induction xs) simp_all

lemma list_all2_paper_of_FIELDS:
  "list_all2 (\<lambda>pid p. paper_of summaries pid = Inr p) pids papers \<Longrightarrow>
   list_all (\<lambda>p. map fst p = FIELDS) papers"
  by (induction rule: list_all2_induct) (auto dest: paper_of_FIELDS)

lemma papers_loop_FIELDS:
  "papers_loop summaries pids [] = Inr papers \<Longrightarrow>
   list_all (\<lambda>p. map fst p = FIELDS) papers"
  by (rule list_all2_paper_of_FIELDS) (rule papers_loop_returns)

lemma fetch_paper_details_FIELDS:
  assumes "fetch_paper_details w ids = Inr papers"
  shows "list_all (\<lambda>p. map fst p = FIELDS) papers"
proof -
  from assms obtain summaries pids where "papers_loop summaries pids [] = Inr papers"
    by (auto simp: fetch_paper_details_def split: sum.splits)
  then show ?thesis by (rule papers_loop_FIELDS)
qed
















lemma main_csv:
  assumes "fetch_pubmed_ids w (query a) = Inr ids"
    and "fetch_paper_details w ids = Inr papers"
    and "papers \<noteq> []" and "file_arg a = Some filename" and "filename \<noteq> []"
  shows "main a w =
     (if can_open w filename
      then (if list_all encodable_record papers
        then \<lparr>exit_code = 0,
          logged = emitted (debug a) [(INFO, FetchingIds (query a)), (DEBUG, FoundIds ids),
            (INFO, FetchingDetails), (INFO, SavingResults filename)],
          printed = [],
          written = Some (filename, map JStr FIELDS # map (map snd) papers)\<rparr>
        else \<lparr>exit_code = 1,
          logged = emitted (debug a) [(INFO, FetchingIds (query a)), (DEBUG, FoundIds ids),
            (INFO, FetchingDetails), (INFO, SavingResults filename),
            (ERROR, AnErrorOccurred UnicodeEncodeError)],
          printed = [],
          written = Some (filename,
            map JStr FIELDS # map (map snd) (takeWhile encodable_record papers))\<rparr>)
      else \<lparr>exit_code = 1,
        logged = emitted (debug a) [(INFO, FetchingIds (query a)), (DEBUG, FoundIds ids),
          (INFO, FetchingDetails), (INFO, SavingResults filename),
          (ERROR, AnErrorOccurred OSError)],
        printed = [], written = None\<rparr>)"
proof -
  have "file_given a"
    using assms(4,5) by (simp add: file_given_def)
  moreover note save_to_csv_FIELDS [OF fetch_paper_details_FIELDS [OF assms(2)] assms(3),
      of w filename]
  ultimately show ?thesis
    by (simp add: main_def assms takeWhile_all)
qed


lemma example_resolver:
  "fetch_pubmed_ids example_world q = Inr (JList (map JStr example_ids))"
  by (simp add: fetch_pubmed_ids_def example_esearch)

lemma example_encodable:
  "list_all encodable_record [example_paper, null_paper (ascii ''2'')]"
  by (simp add: encodable_record_def example_paper_def null_paper_def ascii_def
      is_surrogate_def)

lemma example_main:
  "main example_args example_world =
     \<lparr>exit_code = 0,
      logged = [(INFO, FetchingIds (ascii ''cancer'')), (INFO, FetchingDetails),
        (INFO, SavingResults (ascii ''out.csv''))],
      printed = [],
      written = Some (ascii ''out.csv'',
        map JStr FIELDS # map (map snd) [example_paper, null_paper (ascii ''2'')])\<rparr>"
proof -
  have f: "file_arg example_args = Some (ascii ''out.csv'')" "ascii ''out.csv'' \<noteq> []"
    by (simp_all add: example_args_def ascii_def)
  have o: "can_open example_world (ascii ''out.csv'')"
    by (simp add: example_world_def)
  have q: "query example_args = ascii ''cancer''" "debug example_args = False"
    by (simp_all add: example_args_def)
  from main_csv [OF example_resolver example_fetch _ f] o example_encodable show ?thesis
    by (simp add: q emitted_def)
qed

lemma surrogate_resolver:
  "fetch_pubmed_ids surrogate_world q = Inr (JList (map JStr example_ids))"
  by (simp add: fetch_pubmed_ids_def get_json_def surrogate_world_def)

lemma surrogate_summaries:
  "summaries_of surrogate_world example_ids =
     Inr (JDict [(ascii ''1'', JDict [(ascii ''title'', JStr (ascii ''ok''))]),
                 (ascii ''2'', JDict [(ascii ''title'', JStr [55296])])])"
  by (simp add: summaries_of_def get_json_def surrogate_world_def urls_differ)

lemma paper_of_title_only:
  assumes "map_of result pid = Some (JDict [(ascii ''title'', JStr title)])"
  shows "paper_of (JDict result) pid = Inr (titled_paper pid title)"
proof -
  have k: "ascii ''pubdate'' \<noteq> ascii ''title''" "ascii ''authors'' \<noteq> ascii ''title''"
    "ascii ''elocationid'' \<noteq> ascii ''title''"
    by (simp_all add: ascii_def)
  show ?thesis
    by (simp add: paper_of_def assms k join_or_None_def py_join_def or_None_def
        titled_paper_def)
qed

lemma surrogate_fetch:
  "fetch_paper_details surrogate_world (JList (map JStr example_ids)) =
     Inr [titled_paper (ascii ''1'') (ascii ''ok''), titled_paper (ascii ''2'') [55296]]"
proof -
  have one: "map_of [(ascii ''1'', JDict [(ascii ''title'', JStr (ascii ''ok''))]),
                 (ascii ''2'', JDict [(ascii ''title'', JStr [55296])])] (ascii ''1'') =
      Some (JDict [(ascii ''title'', JStr (ascii ''ok''))])"
    by simp
  have two: "map_of [(ascii ''1'', JDict [(ascii ''title'', JStr (ascii ''ok''))]),
                 (ascii ''2'', JDict [(ascii ''title'', JStr [55296])])] (ascii ''2'') =
      Some (JDict [(ascii ''title'', JStr [55296])])"
    by (simp add: ascii_def)
  show ?thesis
    by (simp add: fetch_paper_details_ids surrogate_summaries)
      (simp add: example_ids_def paper_of_title_only [OF one] paper_of_title_only [OF two])
qed

lemma surrogate_records:
  "takeWhile encodable_record
     [titled_paper (ascii ''1'') (ascii ''ok''), titled_paper (ascii ''2'') [55296]] =
     [titled_paper (ascii ''1'') (ascii ''ok'')]"
  "\<not> list_all encodable_record
     [titled_paper (ascii ''1'') (ascii ''ok''), titled_paper (ascii ''2'') [55296]]"
  by (simp_all add: encodable_record_def titled_paper_def ascii_def is_surrogate_def)


lemma surrogate_main:
  "exit_code (main example_args surrogate_world) = 1 \<and>
   logged (main example_args surrogate_world) =
     [(INFO, FetchingIds (ascii ''cancer'')), (INFO, FetchingDetails),
      (INFO, SavingResults (ascii ''out.csv'')),
      (ERROR, AnErrorOccurred UnicodeEncodeError)]"
proof -
  have f: "file_arg example_args = Some (ascii ''out.csv'')" "ascii ''out.csv'' \<noteq> []"
    by (simp_all add: example_args_def ascii_def)
  have o: "can_open surrogate_world (ascii ''out.csv'')"
    by (simp add: surrogate_world_def)
  have q: "query example_args = ascii ''cancer''" "debug example_args = False"
    by (simp_all add: example_args_def)
  from main_csv [OF surrogate_resolver surrogate_fetch _ f] o surrogate_records(2)
  show ?thesis
    by (simp add: q emitted_def)
qed

theorem debug_flag_only_changes_the_log_witness:
  "logged (main (example_args\<lparr>debug := True\<rparr>) example_world) =
     [(INFO, FetchingIds (ascii ''cancer'')), (DEBUG, FoundIds (JList (map JStr example_ids))),
      (INFO, FetchingDetails), (INFO, SavingResults (ascii ''out.csv''))] \<and>
   filter (\<lambda>r. fst r \<noteq> DEBUG) (logged (main (example_args\<lparr>debug := True\<rparr>) example_world)) =
     [(INFO, FetchingIds (ascii ''cancer'')), (INFO, FetchingDetails),
      (INFO, SavingResults (ascii ''out.csv''))] \<and>
   exit_code (main (example_args\<lparr>debug := True\<rparr>) example_world) = 0"
proof -
  have f: "file_arg (example_args\<lparr>debug := True\<rparr>) = Some (ascii ''out.csv'')"
    "ascii ''out.csv'' \<noteq> []"
    by (simp_all add: example_args_def ascii_def)
  have o: "can_open example_world (ascii ''out.csv'')"
    by (simp add: example_world_def)
  have q: "query (example_args\<lparr>debug := True\<rparr>) = ascii ''cancer''"
    by (simp add: example_args_def)
  have e: "example_args\<lparr>debug := False\<rparr> = example_args"
    by (simp add: example_args_def)
  from main_csv [OF example_resolver example_fetch _ f] o example_encodable
  have l: "logged (main (example_args\<lparr>debug := True\<rparr>) example_world) =
     [(INFO, FetchingIds (ascii ''cancer'')), (DEBUG, FoundIds (JList (map JStr example_ids))),
      (INFO, FetchingDetails), (INFO, SavingResults (ascii ''out.csv''))]"
    by (simp add: q emitted_def)
  from debug_flag_only_changes_the_log [of example_args example_world] l show ?thesis
    by (simp add: e example_main)
qed

end
